theory Spec2Isabelle
  imports Main "HOL-Library.Sublist"
begin

section \<open>The request logger of web/middleware/logger.go\<close>

text \<open>
  The middleware wraps an inner handler. For one request it prints a start record, in
  verbose mode one record per header key, runs the inner handler on a status-observing
  wrapper of the response writer, and prints an end record with the status and the time
  the handler took. A record is the string handed to \<^verbatim>\<open>log.Print\<close>; Go strings are byte
  sequences, so a record is a \<^typ>\<open>string\<close>.
\<close>

subsection \<open>The colour writer\<close>

text \<open>
  The colours named in logger.go. Their byte sequences are declared outside logger.go,
  so a colour is a name here and the terminal says how a coloured text is written.
\<close>

datatype color =
  bBlack | bMagenta | nBlue | bBlue | bGreen | bCyan | bYellow | bRed | nGreen | nYellow | nRed

record terminal =
  isTTY :: bool
  colorize :: "color \<Rightarrow> string \<Rightarrow> string"

text \<open>
  Modelled from the spec: \<^verbatim>\<open>cW(buf, color, format, args...)\<close> is called by logger.go and
  defined outside it. The spec has colour as an annotation of a substring of the record,
  "a small pluggable strategy (interface over colorize(text, severity) -> string) so
  non-terminal sinks can no-op it", and the comment of \<^verbatim>\<open>Logger\<close> says "When standard
  output is a TTY, Logger will print in color, otherwise it will print in black and
  white". So \<open>cW\<close> appends the text to the buffer, passed through the terminal's
  \<open>colorize\<close> on a TTY and as it is otherwise. The argument \<open>s\<close> is the text already
  formatted by the format string.
\<close>

definition cW :: "terminal \<Rightarrow> string \<Rightarrow> color \<Rightarrow> string \<Rightarrow> string" where
  "cW term buf c s = (if isTTY term then buf @ colorize term c s else buf @ s)"

subsection \<open>Formatting verbs of the standard library\<close>

text \<open>
  \<^verbatim>\<open>%03d\<close> of Go's fmt on an \<^verbatim>\<open>int\<close>: decimal digits, padded with zeros on the left to
  a width of at least three, a minus sign counting towards the width.
\<close>

function decimal :: "nat \<Rightarrow> string" where
  "decimal n =
     (if n < 10 then [''0123456789'' ! n]
      else decimal (n div 10) @ [''0123456789'' ! (n mod 10)])"
  by pat_completeness auto
termination
  by (relation "measure (\<lambda>n. n)") auto

declare decimal.simps [simp del]

definition zeroPad :: "nat \<Rightarrow> string \<Rightarrow> string" where
  "zeroPad wid s = replicate (wid - length s) (CHR ''0'') @ s"

definition Sprintf03d :: "int \<Rightarrow> string" where
  "Sprintf03d n =
     (if n < 0 then CHR ''-'' # zeroPad 2 (decimal (nat (- n)))
      else zeroPad 3 (decimal (nat n)))"

text \<open>
  \<^verbatim>\<open>%q\<close> of Go's fmt on a string is \<^verbatim>\<open>strconv.Quote\<close>: the string between double quotes,
  with the double quote and the backslash escaped by a backslash, the printable ASCII
  bytes (0x20 to 0x7E) as they are, and the other ASCII bytes as \<^verbatim>\<open>\a \b \f \n \r \t \v\<close>
  or \<^verbatim>\<open>\xNN\<close>. What it does with a byte above 0x7F depends on UTF-8 decoding and on the
  Unicode tables; that part is the parameter \<open>quoteUnicode\<close> of the library record below.
  \<^verbatim>\<open>%s\<close> of a \<^verbatim>\<open>time.Duration\<close> is \<^verbatim>\<open>Duration.String\<close>, the parameter \<open>durationString\<close>.
\<close>

record stdlib =
  quoteUnicode :: "string \<Rightarrow> string"
  durationString :: "int \<Rightarrow> string"

definition lowerhex :: string where
  "lowerhex = ''0123456789abcdef''"

definition quoteByte :: "char \<Rightarrow> string" where
  "quoteByte c =
     (let r = (of_char c :: nat) in
      if c = CHR 0x22 \<or> c = CHR 0x5C then [CHR 0x5C, c]
      else if 0x20 \<le> r \<and> r \<le> 0x7E then [c]
      else if r = 7 then [CHR 0x5C, CHR ''a'']
      else if r = 8 then [CHR 0x5C, CHR ''b'']
      else if r = 12 then [CHR 0x5C, CHR ''f'']
      else if r = 10 then [CHR 0x5C, CHR ''n'']
      else if r = 13 then [CHR 0x5C, CHR ''r'']
      else if r = 9 then [CHR 0x5C, CHR ''t'']
      else if r = 11 then [CHR 0x5C, CHR ''v'']
      else [CHR 0x5C, CHR ''x'', lowerhex ! (r div 16), lowerhex ! (r mod 16)])"

definition Quote :: "stdlib \<Rightarrow> string \<Rightarrow> string" where
  "Quote lib s =
     (if list_all (\<lambda>c. (of_char c :: nat) < 0x80) s
      then CHR 0x22 # concat (map quoteByte s) @ [CHR 0x22]
      else quoteUnicode lib s)"

subsection \<open>Durations\<close>

text \<open>
  A \<^verbatim>\<open>time.Duration\<close> is a count of nanoseconds in an int64. The two instants of a
  request are the nanosecond readings that the two calls of \<^verbatim>\<open>time.Now()\<close> returned;
  \<^verbatim>\<open>t2.Sub(t1)\<close> is their difference, saturating at the ends of the int64 range.
\<close>

definition Millisecond :: int where
  "Millisecond = 1000000"

definition Second :: int where
  "Second = 1000000000"

definition maxDuration :: int where
  "maxDuration = 2 ^ 63 - 1"

definition minDuration :: int where
  "minDuration = - (2 ^ 63)"

definition Sub :: "int \<Rightarrow> int \<Rightarrow> int" where
  "Sub t u =
     (if t - u > maxDuration then maxDuration
      else if t - u < minDuration then minDuration
      else t - u)"

subsection \<open>Request, context and response writer\<close>

text \<open>
  The fields of \<^verbatim>\<open>http.Request\<close> that logger.go reads. \<open>URL\<close> is the result of
  \<^verbatim>\<open>r.URL.String()\<close>. \<open>Header\<close> is Go's \<^verbatim>\<open>map[string][]string\<close>.
\<close>

record request =
  Method :: string
  URL :: string
  Header :: "string \<rightharpoonup> string list"
  RemoteAddr :: string

text \<open>
  \<^verbatim>\<open>Header.Get\<close> of net/http: the first value stored under the key, the empty string when
  the key is absent or has no value. The key logger.go passes is already in canonical
  form, so the canonicalisation of the key is the identity there.
\<close>

definition Get :: "(string \<rightharpoonup> string list) \<Rightarrow> string \<Rightarrow> string" where
  "Get hdr key =
     (case hdr key of
        None \<Rightarrow> []
      | Some v \<Rightarrow> (case v of [] \<Rightarrow> [] | x # _ \<Rightarrow> x))"

text \<open>
  Modelled from the spec: \<^verbatim>\<open>web.C\<close> and \<^verbatim>\<open>GetReqID\<close> are defined outside logger.go. The
  spec: "Read reqID := C.requestID (empty string if unset/unsupported)".
\<close>

record C =
  requestID :: "string option"

definition GetReqID :: "C \<Rightarrow> string" where
  "GetReqID c = (case requestID c of None \<Rightarrow> [] | Some s \<Rightarrow> s)"

text \<open>
  The response sink \<^verbatim>\<open>http.ResponseWriter\<close>, as far as the logger can tell: the list of
  the status codes written to it, oldest first.
\<close>

type_synonym ResponseWriter = "int list"

text \<open>
  Modelled from the spec: \<^verbatim>\<open>mutil.WrapWriter\<close> and its \<^verbatim>\<open>WriterProxy\<close> are defined outside
  logger.go. The spec: "Wrap W in a status-observing proxy W' that records the first
  status code explicitly set on it, defaulting to 0 until then", the sink "supports
  writing a status code (observable exactly once as first status explicitly set)". So
  the proxy holds the first status set, if any; \<open>WriteHeader\<close> records the code and passes
  it to the sink when none is recorded yet, and does nothing otherwise.
\<close>

record WriterProxy =
  sink :: ResponseWriter
  recorded :: "int option"

definition WrapWriter :: "ResponseWriter \<Rightarrow> WriterProxy" where
  "WrapWriter w = \<lparr>sink = w, recorded = None\<rparr>"

definition Status :: "WriterProxy \<Rightarrow> int" where
  "Status lw = (case recorded lw of None \<Rightarrow> 0 | Some code \<Rightarrow> code)"

definition WriteHeader :: "WriterProxy \<Rightarrow> int \<Rightarrow> WriterProxy" where
  "WriteHeader lw code =
     (case recorded lw of
        None \<Rightarrow> lw\<lparr>sink := sink lw @ [code], recorded := Some code\<rparr>
      | Some _ \<Rightarrow> lw)"

definition StatusOK :: int where
  "StatusOK = 200"

text \<open>
  An inner handler is any function from the wrapped writer it is given, and the request,
  to the writer it leaves behind. logger.go recovers from no panic: a handler that panics
  does not return to the middleware, which prints nothing after it. The model is of the
  requests whose handler returns.
\<close>

type_synonym Handler = "WriterProxy \<Rightarrow> request \<Rightarrow> WriterProxy"

subsection \<open>printHeaders\<close>

text \<open>
  The inner loop \<^verbatim>\<open>for ks, vs := range v\<close>: the index \<open>ks\<close> runs over the values of one
  key, each value is written, and a separator after every value but the last.
\<close>

function writeValues :: "string list \<Rightarrow> nat \<Rightarrow> string \<Rightarrow> string" where
  "writeValues v ks buf =
     (if ks < length v then
        (let buf = buf @ v ! ks;
             buf = (if ks + 1 < length v then buf @ '', '' else buf)
         in writeValues v (ks + 1) buf)
      else buf)"
  by pat_completeness auto
termination
  by (relation "measure (\<lambda>(v, ks, buf). length v - ks)") auto

declare writeValues.simps [simp del]

text \<open>
  The outer loop \<^verbatim>\<open>for k, v := range r.Header\<close>. Go leaves the order in which a map is
  ranged over open; \<open>order\<close> is the order the runtime took, a list of keys. A key of
  \<open>order\<close> that the map does not hold yields nothing. The buffer is passed on from one
  round to the next, emptied by \<^verbatim>\<open>buf.Reset()\<close>.
\<close>

fun rangeHeader ::
  "terminal \<Rightarrow> string \<Rightarrow> (string \<rightharpoonup> string list) \<Rightarrow> string list \<Rightarrow> string \<Rightarrow> string list
     \<Rightarrow> string list" where
  "rangeHeader term reqID hdr [] buf log = log"
| "rangeHeader term reqID hdr (k # order) buf log =
     (case hdr k of
        None \<Rightarrow> rangeHeader term reqID hdr order buf log
      | Some v \<Rightarrow>
          (let buf = (if reqID \<noteq> [] then cW term buf bBlack (''['' @ reqID @ ''] '') else buf);
               buf = buf @ (k @ '': '');
               buf = writeValues v 0 buf;
               log = log @ [buf];
               buf = []
           in rangeHeader term reqID hdr order buf log))"

definition printHeaders ::
  "terminal \<Rightarrow> string \<Rightarrow> request \<Rightarrow> string list \<Rightarrow> string list \<Rightarrow> string list" where
  "printHeaders term reqID r order log = rangeHeader term reqID (Header r) order [] log"

subsection \<open>printStart and printEnd\<close>

definition printStart ::
  "terminal \<Rightarrow> stdlib \<Rightarrow> string \<Rightarrow> request \<Rightarrow> string list \<Rightarrow> string list" where
  "printStart term lib reqID r log =
     (let buf = [];
          buf = (if reqID \<noteq> [] then cW term buf bBlack (''['' @ reqID @ ''] '') else buf);
          buf = buf @ ''Started '';
          buf = cW term buf bMagenta (Method r @ '' '');
          buf = cW term buf nBlue (Quote lib (URL r) @ '' '');
          buf = buf @ ''from '';
          h = Get (Header r) ''X-Forwarded-For'';
          buf = (if h \<noteq> [] then buf @ h else buf @ RemoteAddr r)
      in log @ [buf])"

definition printEnd ::
  "terminal \<Rightarrow> stdlib \<Rightarrow> string \<Rightarrow> WriterProxy \<Rightarrow> int \<Rightarrow> string list \<Rightarrow> string list" where
  "printEnd term lib reqID w dt log =
     (let buf = [];
          buf = (if reqID \<noteq> [] then cW term buf bBlack (''['' @ reqID @ ''] '') else buf);
          buf = buf @ ''Returning '';
          status = Status w;
          buf = (if status < 200 then cW term buf bBlue (Sprintf03d status)
                 else if status < 300 then cW term buf bGreen (Sprintf03d status)
                 else if status < 400 then cW term buf bCyan (Sprintf03d status)
                 else if status < 500 then cW term buf bYellow (Sprintf03d status)
                 else cW term buf bRed (Sprintf03d status));
          buf = buf @ '' in '';
          buf = (if dt < 500 * Millisecond then cW term buf nGreen (durationString lib dt)
                 else if dt < 5 * Second then cW term buf nYellow (durationString lib dt)
                 else cW term buf nRed (durationString lib dt))
      in log @ [buf])"

subsection \<open>loggerHandler, Logger and LoggerVerbose\<close>

text \<open>
  One run of the function that \<open>loggerHandler\<close> returns, on the response writer \<open>w\<close> and
  the request \<open>r\<close>. \<open>order\<close> is the order in which the header map is ranged over, \<open>t1\<close>
  and \<open>t2\<close> are the readings of the two calls of \<^verbatim>\<open>time.Now()\<close>. The result is the list of
  the records printed, in the order printed, and the wrapped writer at the end.
\<close>

definition loggerHandler ::
  "terminal \<Rightarrow> stdlib \<Rightarrow> C \<Rightarrow> Handler \<Rightarrow> bool \<Rightarrow> string list \<Rightarrow> int \<Rightarrow> int
     \<Rightarrow> ResponseWriter \<Rightarrow> request \<Rightarrow> string list \<times> WriterProxy" where
  "loggerHandler term lib c h verbose order t1 t2 w r =
     (let reqID = GetReqID c;
          log = printStart term lib reqID r [];
          log = (if verbose then printHeaders term reqID r order log else log);
          lw = WrapWriter w;
          lw = h lw r;
          lw = (if Status lw = 0 then WriteHeader lw StatusOK else lw);
          log = printEnd term lib reqID lw (Sub t2 t1) log
      in (log, lw))"

definition LoggerVerbose ::
  "terminal \<Rightarrow> stdlib \<Rightarrow> C \<Rightarrow> Handler \<Rightarrow> string list \<Rightarrow> int \<Rightarrow> int
     \<Rightarrow> ResponseWriter \<Rightarrow> request \<Rightarrow> string list \<times> WriterProxy" where
  "LoggerVerbose term lib c h = loggerHandler term lib c h True"

definition Logger ::
  "terminal \<Rightarrow> stdlib \<Rightarrow> C \<Rightarrow> Handler \<Rightarrow> string list \<Rightarrow> int \<Rightarrow> int
     \<Rightarrow> ResponseWriter \<Rightarrow> request \<Rightarrow> string list \<times> WriterProxy" where
  "Logger term lib c h = loggerHandler term lib c h False"

subsection \<open>The records as the specification words them\<close>

text \<open>
  The specification's data model: a record is "optionally prefixed with [<reqID>] when a
  request ID is present". \<open>reqTag\<close> is that prefix as the colour writer writes it on an
  empty buffer, and nothing for the empty request ID.
\<close>

definition reqTag :: "terminal \<Rightarrow> string \<Rightarrow> string" where
  "reqTag term reqID = (if reqID = [] then [] else cW term [] bBlack (''['' @ reqID @ ''] ''))"

text \<open>
  The specification's header record lists "that key's values joined by \<^verbatim>\<open>", "\<close>, preserving the
  within-key value order".
\<close>

fun joined :: "string \<Rightarrow> string list \<Rightarrow> string" where
  "joined sep [] = []"
| "joined sep [v] = v"
| "joined sep (v # v' # vs) = v @ sep @ joined sep (v' # vs)"


subsection \<open>Example inputs\<close>

text \<open>
  The request of the specification's examples: \<^verbatim>\<open>GET /widgets?id=1\<close> with the header
  \<^verbatim>\<open>X-Forwarded-For: 10.0.0.5\<close>, and a second header with three values. The terminal is
  either black and white, or a TTY that writes a coloured text between angle brackets.
  The example library prints a duration as whole milliseconds.
\<close>

definition noColor :: "color \<Rightarrow> string \<Rightarrow> string" where
  "noColor c s = s"

definition markColor :: "color \<Rightarrow> string \<Rightarrow> string" where
  "markColor c s = ''<'' @ s @ ''>''"

definition plainTerminal :: terminal where
  "plainTerminal = \<lparr>isTTY = False, colorize = noColor\<rparr>"

definition colorTerminal :: terminal where
  "colorTerminal = \<lparr>isTTY = True, colorize = markColor\<rparr>"

definition millisString :: "int \<Rightarrow> string" where
  "millisString dt = decimal (nat (dt div Millisecond)) @ ''ms''"

definition quoteAsIs :: "string \<Rightarrow> string" where
  "quoteAsIs s = CHR 0x22 # s @ [CHR 0x22]"

definition exampleLib :: stdlib where
  "exampleLib = \<lparr>quoteUnicode = quoteAsIs, durationString = millisString\<rparr>"

definition widgetsRequest :: request where
  "widgetsRequest =
     \<lparr>Method = ''GET'', URL = ''/widgets?id=1'',
      Header = [''X-Forwarded-For'' \<mapsto> [''10.0.0.5''], ''Accept'' \<mapsto> [''text/html'', ''text/plain'', ''*/*'']],
      RemoteAddr = ''192.168.1.9:51034''\<rparr>"

definition widgetsOrder :: "string list" where
  "widgetsOrder = [''Accept'', ''X-Forwarded-For'']"

definition withID :: C where
  "withID = \<lparr>requestID = Some ''abc123''\<rparr>"

definition withoutID :: C where
  "withoutID = \<lparr>requestID = None\<rparr>"

text \<open>Two inner handlers: one that never touches the writer, one that answers 404.\<close>

definition silentHandler :: Handler where
  "silentHandler lw r = lw"

definition notFoundHandler :: Handler where
  "notFoundHandler lw r = WriteHeader lw 404"

text \<open>
  One run of the middleware on the example request, with the example library, the first
  clock reading 0 and an empty response sink.
\<close>

definition widgetsRun ::
  "terminal \<Rightarrow> C \<Rightarrow> Handler \<Rightarrow> bool \<Rightarrow> int \<Rightarrow> string list \<times> WriterProxy" where
  "widgetsRun term c h verbose t2 =
     loggerHandler term exampleLib c h verbose widgetsOrder 0 t2 [] widgetsRequest"



section \<open>Properties\<close>

subsection \<open>What each printing function appends\<close>

lemma joined_Cons: "joined sep (x # xs) = (if xs = [] then x else x @ sep @ joined sep xs)"
  by (cases xs) simp_all

lemma writeValues_joined: "writeValues v ks buf = buf @ joined '', '' (drop ks v)"
proof (induction v ks buf rule: writeValues.induct)
  case (1 v ks buf)
  show ?case
  proof (cases "ks < length v")
    case False
    then show ?thesis by (simp add: writeValues.simps)
  next
    case True
    define buf1 where "buf1 = buf @ v ! ks"
    define buf2 where "buf2 = (if ks + 1 < length v then buf1 @ '', '' else buf1)"
    have ih: "writeValues v (ks + 1) buf2 = buf2 @ joined '', '' (drop (ks + 1) v)"
      using "1.IH" [OF True buf1_def buf2_def] .
    have step: "writeValues v ks buf = writeValues v (ks + 1) buf2"
      using True by (subst writeValues.simps) (simp add: Let_def buf1_def buf2_def)
    have d: "drop ks v = v ! ks # drop (ks + 1) v"
      using True by (simp add: Cons_nth_drop_Suc)
    have e: "(drop (ks + 1) v = []) = (\<not> ks + 1 < length v)"
      by auto
    show ?thesis
      unfolding step ih d joined_Cons e
      by (simp add: buf2_def buf1_def)
  qed
qed

lemma rangeHeader_lines:
  "rangeHeader term reqID hdr order [] log =
     log @ map (\<lambda>k. reqTag term reqID @ k @ '': '' @ joined '', '' (the (hdr k)))
             (filter (\<lambda>k. hdr k \<noteq> None) order)"
  by (induction order arbitrary: log)
     (auto simp: Let_def reqTag_def cW_def writeValues_joined)

lemma printStart_line:
  "printStart term lib reqID r log =
     log @ [reqTag term reqID @ ''Started '' @ cW term [] bMagenta (Method r @ '' '')
              @ cW term [] nBlue (Quote lib (URL r) @ '' '') @ ''from ''
              @ (if Get (Header r) ''X-Forwarded-For'' \<noteq> []
                 then Get (Header r) ''X-Forwarded-For'' else RemoteAddr r)]"
  by (simp add: printStart_def reqTag_def cW_def Let_def)

lemma printEnd_line:
  "printEnd term lib reqID lw dt log =
     log @ [reqTag term reqID @ ''Returning ''
              @ cW term []
                  (if Status lw < 200 then bBlue else if Status lw < 300 then bGreen
                   else if Status lw < 400 then bCyan else if Status lw < 500 then bYellow
                   else bRed)
                  (Sprintf03d (Status lw))
              @ '' in ''
              @ cW term []
                  (if dt < 500 * Millisecond then nGreen else if dt < 5 * Second then nYellow
                   else nRed)
                  (durationString lib dt)]"
  by (simp add: printEnd_def reqTag_def cW_def Let_def)

lemma loggerHandler_writer:
  "snd (loggerHandler term lib c h verbose order t1 t2 w r) =
     (if Status (h (WrapWriter w) r) = 0 then WriteHeader (h (WrapWriter w) r) StatusOK
      else h (WrapWriter w) r)"
  by (simp add: loggerHandler_def Let_def)

lemma loggerHandler_log:
  "fst (loggerHandler term lib c h verbose order t1 t2 w r) =
     printEnd term lib (GetReqID c) (snd (loggerHandler term lib c h verbose order t1 t2 w r))
       (Sub t2 t1)
       (printStart term lib (GetReqID c) r []
          @ (if verbose
             then map (\<lambda>k. reqTag term (GetReqID c) @ k @ '': '' @ joined '', '' (the (Header r k)))
                    (filter (\<lambda>k. Header r k \<noteq> None) order)
             else []))"
  by (simp add: loggerHandler_def Let_def printHeaders_def rangeHeader_lines)

subsection \<open>Decimal digits\<close>

lemma decimal_lt_10: "n < 10 \<Longrightarrow> decimal n = [''0123456789'' ! n]"
  by (simp add: decimal.simps)

lemma decimal_lt_100:
  assumes "10 \<le> n" and "n < 100"
  shows "decimal n = [''0123456789'' ! (n div 10), ''0123456789'' ! (n mod 10)]"
proof -
  have "n div 10 < 10" using assms by simp
  then have "decimal (n div 10) = [''0123456789'' ! (n div 10)]"
    by (rule decimal_lt_10)
  with assms show ?thesis
    by (subst decimal.simps) simp
qed

lemma decimal_lt_1000:
  assumes "100 \<le> n" and "n < 1000"
  shows "decimal n =
    [''0123456789'' ! (n div 100), ''0123456789'' ! (n div 10 mod 10), ''0123456789'' ! (n mod 10)]"
proof -
  have "10 \<le> n div 10" and "n div 10 < 100" using assms by simp_all
  then have "decimal (n div 10) =
      [''0123456789'' ! (n div 10 div 10), ''0123456789'' ! (n div 10 mod 10)]"
    by (rule decimal_lt_100)
  moreover have "n div 10 div 10 = n div 100"
    by (simp add: div_mult2_eq [symmetric])
  ultimately show ?thesis
    using assms by (subst decimal.simps) simp
qed

lemma zeroPad3_digits:
  assumes "n < 1000"
  shows "zeroPad 3 (decimal n) =
    [''0123456789'' ! (n div 100), ''0123456789'' ! (n div 10 mod 10), ''0123456789'' ! (n mod 10)]"
proof -
  consider "n < 10" | "10 \<le> n" "n < 100" | "100 \<le> n" by linarith
  then show ?thesis
  proof cases
    case 1
    then show ?thesis by (simp add: decimal_lt_10 zeroPad_def numeral_2_eq_2)
  next
    case 2
    then show ?thesis by (simp add: decimal_lt_100 zeroPad_def)
  next
    case 3
    with assms show ?thesis by (simp add: decimal_lt_1000 zeroPad_def)
  qed
qed

lemma Sprintf03d_200: "Sprintf03d 200 = ''200''"
  by (simp add: Sprintf03d_def zeroPad_def decimal.simps)

subsection \<open>The example runs, evaluated\<close>

lemmas model_defs =
  loggerHandler_def printStart_def printEnd_def printHeaders_def cW_def Quote_def
  quoteByte_def GetReqID_def Get_def WrapWriter_def Status_def WriteHeader_def StatusOK_def
  Sub_def maxDuration_def minDuration_def Millisecond_def Second_def Sprintf03d_def
  zeroPad_def decimal.simps writeValues.simps Let_def

lemmas widgets_defs =
  widgetsRun_def widgetsRequest_def widgetsOrder_def exampleLib_def millisString_def

lemma run_silent_verbose:
  "fst (widgetsRun plainTerminal withID silentHandler True (6 * Second)) =
     [''[abc123] Started GET '' @ [CHR 0x22] @ ''/widgets?id=1'' @ [CHR 0x22] @ '' from 10.0.0.5'',
      ''[abc123] Accept: text/html, text/plain, */*'',
      ''[abc123] X-Forwarded-For: 10.0.0.5'',
      ''[abc123] Returning 200 in 6000ms'']"
  by (simp add: widgets_defs plainTerminal_def withID_def silentHandler_def model_defs)

lemma run_silent_writer:
  "snd (widgetsRun plainTerminal withID silentHandler True (6 * Second)) =
     \<lparr>sink = [200], recorded = Some 200\<rparr>"
  by (simp add: widgets_defs plainTerminal_def withID_def silentHandler_def model_defs)

lemma run_notfound_verbose:
  "fst (widgetsRun plainTerminal withoutID notFoundHandler True (120 * Millisecond)) =
     [''Started GET '' @ [CHR 0x22] @ ''/widgets?id=1'' @ [CHR 0x22] @ '' from 10.0.0.5'',
      ''Accept: text/html, text/plain, */*'',
      ''X-Forwarded-For: 10.0.0.5'',
      ''Returning 404 in 120ms'']"
  by (simp add: widgets_defs plainTerminal_def withoutID_def notFoundHandler_def model_defs)

lemma run_notfound_color:
  "fst (widgetsRun colorTerminal withID notFoundHandler False (700 * Millisecond)) =
     [''<[abc123] >Started <GET ><'' @ [CHR 0x22] @ ''/widgets?id=1'' @ [CHR 0x22]
        @ '' >from 10.0.0.5'',
      ''<[abc123] >Returning <404> in <700ms>'']"
  by (simp add: widgets_defs colorTerminal_def markColor_def withID_def notFoundHandler_def
        model_defs)

lemma run_notfound_writer:
  "snd (widgetsRun colorTerminal withID notFoundHandler False (700 * Millisecond)) =
     \<lparr>sink = [404], recorded = Some 404\<rparr>"
  by (simp add: widgets_defs colorTerminal_def markColor_def withID_def notFoundHandler_def
        model_defs)


subsection \<open>Quoting a URL without special bytes\<close>





section \<open>The claims\<close>

subsection \<open>Request-ID prefix\<close>

text \<open>
  C1. When the request ID \<open>X\<close> is not empty, every record the middleware prints for the
  request (the start record, each header record in verbose mode, the end record) begins
  with the prefix \<^verbatim>\<open>[X] \<close>, and it is the same prefix for all of them. The prefix is what
  the colour writer writes for the text \<^verbatim>\<open>[X] \<close> in the colour \<open>bBlack\<close>; on a terminal
  that is not a TTY that is the text \<^verbatim>\<open>[X] \<close> itself. There are at least two records, the
  start and the end.
\<close>

theorem request_id_prefix:
  assumes "GetReqID c = X" and "X \<noteq> []"
  shows "(\<forall>l \<in> set (fst (loggerHandler term lib c h verbose order t1 t2 w r)).
            prefix (cW term [] bBlack (''['' @ X @ ''] '')) l)
       \<and> (\<not> isTTY term \<longrightarrow>
            (\<forall>l \<in> set (fst (loggerHandler term lib c h verbose order t1 t2 w r)).
               prefix (''['' @ X @ ''] '') l))
       \<and> 2 \<le> length (fst (loggerHandler term lib c h verbose order t1 t2 w r))"
proof -
  have tag: "reqTag term (GetReqID c) = cW term [] bBlack (''['' @ X @ ''] '')"
    using assms by (simp add: reqTag_def)
  have all: "\<forall>l \<in> set (fst (loggerHandler term lib c h verbose order t1 t2 w r)).
               prefix (cW term [] bBlack (''['' @ X @ ''] '')) l"
    unfolding loggerHandler_log printEnd_line printStart_line tag
    by auto
  have plain: "\<not> isTTY term \<Longrightarrow> cW term [] bBlack (''['' @ X @ ''] '') = ''['' @ X @ ''] ''"
    by (simp add: cW_def)
  have len: "2 \<le> length (fst (loggerHandler term lib c h verbose order t1 t2 w r))"
    unfolding loggerHandler_log printEnd_line printStart_line by simp
  from all plain len show ?thesis by metis
qed

theorem request_id_prefix_witness:
  "GetReqID withID = ''abc123'' \<and> ''abc123'' \<noteq> [] \<and> \<not> isTTY plainTerminal
   \<and> list_all (prefix ''[abc123] '')
        (fst (widgetsRun plainTerminal withID silentHandler True (6 * Second)))
   \<and> list_all (prefix ''<[abc123] >'')
        (fst (widgetsRun colorTerminal withID notFoundHandler False (700 * Millisecond)))"
proof -
  have a: "GetReqID withID = ''abc123''"
    by (simp add: GetReqID_def withID_def)
  have b: "''abc123'' \<noteq> []"
    by simp
  have c: "\<not> isTTY plainTerminal"
    by (simp add: plainTerminal_def)
  have d: "cW colorTerminal [] bBlack (''['' @ ''abc123'' @ ''] '') = ''<[abc123] >''"
    by (simp add: cW_def colorTerminal_def markColor_def)
  show ?thesis
    using a b c
      request_id_prefix [OF a b, of plainTerminal exampleLib silentHandler True
        widgetsOrder 0 "6 * Second" "[]" widgetsRequest]
      request_id_prefix [OF a b, of colorTerminal exampleLib notFoundHandler False
        widgetsOrder 0 "700 * Millisecond" "[]" widgetsRequest]
    unfolding d
    by (simp add: widgetsRun_def Ball_set)
qed

text \<open>
  C2. When the request ID is the empty string no record carries a bracketed prefix: the
  start record begins with the word \<^verbatim>\<open>Started\<close>, the end record with the word
  \<^verbatim>\<open>Returning\<close>, and every header record is a key of the header map, a colon and that
  key's values, with nothing before the key. The records are the start record, the
  header records and the end record, and no other.
\<close>

theorem empty_request_id_no_prefix:
  assumes "GetReqID c = []"
  shows "(let L = fst (loggerHandler term lib c h verbose order t1 t2 w r) in
           (\<exists>rest. hd L = ''Started '' @ rest)
         \<and> (\<exists>rest. last L = ''Returning '' @ rest)
         \<and> (\<forall>l \<in> set (butlast (tl L)).
              \<exists>k v. Header r k = Some v \<and> l = k @ '': '' @ joined '', '' v)
         \<and> L = hd L # butlast (tl L) @ [last L])"
proof -
  have tag: "reqTag term (GetReqID c) = []"
    using assms by (simp add: reqTag_def)
  show ?thesis
    unfolding loggerHandler_log printEnd_line printStart_line tag Let_def
    by (auto simp: butlast_append) blast
qed

theorem empty_request_id_no_prefix_witness:
  "GetReqID withoutID = []
   \<and> prefix ''Started ''
       (hd (fst (widgetsRun plainTerminal withoutID notFoundHandler True (120 * Millisecond))))
   \<and> prefix ''Returning ''
       (last (fst (widgetsRun plainTerminal withoutID notFoundHandler True (120 * Millisecond))))
   \<and> butlast (tl (fst (widgetsRun plainTerminal withoutID notFoundHandler True
                        (120 * Millisecond))))
       = [''Accept: text/html, text/plain, */*'', ''X-Forwarded-For: 10.0.0.5'']"
proof -
  have a: "GetReqID withoutID = []"
    by (simp add: GetReqID_def withoutID_def)
  have b: "butlast (tl (fst (widgetsRun plainTerminal withoutID notFoundHandler True
                               (120 * Millisecond))))
       = [''Accept: text/html, text/plain, */*'', ''X-Forwarded-For: 10.0.0.5'']"
    by (simp add: run_notfound_verbose)
  show ?thesis
    using a b
      empty_request_id_no_prefix [OF a, of plainTerminal exampleLib notFoundHandler True
        widgetsOrder 0 "120 * Millisecond" "[]" widgetsRequest]
    by (auto simp: widgetsRun_def Let_def prefix_def)
qed

subsection \<open>The status in the end record\<close>

text \<open>
  C3. When the inner handler never sets a status (the wrapper has recorded none when the
  handler returns, so the observed status is still 0), the middleware writes 200: the
  final status is 200, the code 200 is what the middleware adds to the response sink, and
  the end record reports \<^verbatim>\<open>200\<close>, in the colour of the bucket 200 to 299.
\<close>

theorem unset_status_reports_200:
  assumes "recorded (h (WrapWriter w) r) = None"
  shows "Status (snd (loggerHandler term lib c h verbose order t1 t2 w r)) = 200
       \<and> sink (snd (loggerHandler term lib c h verbose order t1 t2 w r))
           = sink (h (WrapWriter w) r) @ [200]
       \<and> (\<exists>rest. last (fst (loggerHandler term lib c h verbose order t1 t2 w r))
             = reqTag term (GetReqID c) @ ''Returning '' @ cW term [] bGreen ''200''
                 @ '' in '' @ rest)"
proof -
  have st0: "Status (h (WrapWriter w) r) = 0"
    using assms by (simp add: Status_def)
  have fin: "snd (loggerHandler term lib c h verbose order t1 t2 w r)
               = WriteHeader (h (WrapWriter w) r) StatusOK"
    unfolding loggerHandler_writer using st0 by simp
  have st: "Status (WriteHeader (h (WrapWriter w) r) StatusOK) = 200"
    using assms by (simp add: WriteHeader_def Status_def StatusOK_def)
  have sk: "sink (WriteHeader (h (WrapWriter w) r) StatusOK) = sink (h (WrapWriter w) r) @ [200]"
    using assms by (simp add: WriteHeader_def StatusOK_def)
  have line: "\<exists>rest. last (fst (loggerHandler term lib c h verbose order t1 t2 w r))
             = reqTag term (GetReqID c) @ ''Returning '' @ cW term [] bGreen ''200''
                 @ '' in '' @ rest"
    unfolding loggerHandler_log printEnd_line fin st
    by (simp add: Sprintf03d_200)
  from fin st sk line show ?thesis by simp
qed

theorem unset_status_reports_200_witness:
  "recorded (silentHandler (WrapWriter []) widgetsRequest) = None
   \<and> Status (snd (widgetsRun plainTerminal withID silentHandler True (6 * Second))) = 200
   \<and> last (fst (widgetsRun plainTerminal withID silentHandler True (6 * Second)))
       = ''[abc123] Returning 200 in 6000ms''"
proof -
  have a: "recorded (silentHandler (WrapWriter []) widgetsRequest) = None"
    by (simp add: silentHandler_def WrapWriter_def)
  have b: "last (fst (widgetsRun plainTerminal withID silentHandler True (6 * Second)))
       = ''[abc123] Returning 200 in 6000ms''"
    by (simp add: run_silent_verbose)
  show ?thesis
    using a b
      unset_status_reports_200 [of silentHandler "[]" widgetsRequest plainTerminal exampleLib
        withID True widgetsOrder 0 "6 * Second", OF a]
    by (simp add: widgetsRun_def)
qed

text \<open>
  C4. When the inner handler sets a status \<open>S\<close> (the first status it sets, which is the one
  the wrapper records), the end record reports \<open>S\<close> as \<^verbatim>\<open>%03d\<close> prints it, in the colour of
  the one bucket \<open>S\<close> falls in: below 200, 200 to 299, 300 to 399, 400 to 499, 500 and
  above. For \<open>S\<close> from 0 to 999 the text is the three decimal digits of \<open>S\<close>, zeros
  included.
\<close>

theorem handler_status_reported:
  assumes "recorded (h (WrapWriter w) r) = Some S"
  shows "(\<exists>rest. last (fst (loggerHandler term lib c h verbose order t1 t2 w r))
            = reqTag term (GetReqID c) @ ''Returning ''
                @ cW term []
                    (if S < 200 then bBlue else if S < 300 then bGreen
                     else if S < 400 then bCyan else if S < 500 then bYellow else bRed)
                    (Sprintf03d S)
                @ '' in '' @ rest)
       \<and> (0 \<le> S \<and> S < 1000 \<longrightarrow>
            Sprintf03d S = [''0123456789'' ! (nat S div 100), ''0123456789'' ! (nat S div 10 mod 10),
                            ''0123456789'' ! (nat S mod 10)])"
proof -
  have fin: "Status (snd (loggerHandler term lib c h verbose order t1 t2 w r)) = S"
    unfolding loggerHandler_writer using assms
    by (simp add: Status_def WriteHeader_def)
  have line: "\<exists>rest. last (fst (loggerHandler term lib c h verbose order t1 t2 w r))
            = reqTag term (GetReqID c) @ ''Returning ''
                @ cW term []
                    (if S < 200 then bBlue else if S < 300 then bGreen
                     else if S < 400 then bCyan else if S < 500 then bYellow else bRed)
                    (Sprintf03d S)
                @ '' in '' @ rest"
    unfolding loggerHandler_log printEnd_line fin
    by simp
  have digits: "0 \<le> S \<and> S < 1000 \<longrightarrow>
            Sprintf03d S = [''0123456789'' ! (nat S div 100), ''0123456789'' ! (nat S div 10 mod 10),
                            ''0123456789'' ! (nat S mod 10)]"
  proof
    assume "0 \<le> S \<and> S < 1000"
    then have "nat S < 1000" and "\<not> S < 0" by linarith+
    then show "Sprintf03d S = [''0123456789'' ! (nat S div 100), ''0123456789'' ! (nat S div 10 mod 10),
                            ''0123456789'' ! (nat S mod 10)]"
      by (simp add: Sprintf03d_def zeroPad3_digits)
  qed
  from line digits show ?thesis by simp
qed

theorem handler_status_reported_witness:
  "recorded (notFoundHandler (WrapWriter []) widgetsRequest) = Some 404
   \<and> last (fst (widgetsRun colorTerminal withID notFoundHandler False (700 * Millisecond)))
       = ''<[abc123] >Returning <404> in <700ms>''
   \<and> cW colorTerminal [] bYellow (Sprintf03d 404) = ''<404>''
   \<and> Sprintf03d 7 = ''007''"
proof -
  have a: "recorded (notFoundHandler (WrapWriter []) widgetsRequest) = Some 404"
    by (simp add: notFoundHandler_def WrapWriter_def WriteHeader_def)
  have b: "last (fst (widgetsRun colorTerminal withID notFoundHandler False (700 * Millisecond)))
       = ''<[abc123] >Returning <404> in <700ms>''"
    by (simp add: run_notfound_color)
  have c: "Sprintf03d 7 = ''007''"
    by (simp add: Sprintf03d_def zeroPad_def decimal.simps numeral_2_eq_2)
  show ?thesis
    using a b c
      handler_status_reported [of notFoundHandler "[]" widgetsRequest 404 colorTerminal
        exampleLib withID False widgetsOrder 0 "700 * Millisecond", OF a]
    by (simp add: cW_def colorTerminal_def markColor_def)
qed

text \<open>
  C10. The middleware writes a status of its own only when the observed status is still 0
  after the inner handler has returned, and then it writes 200. When the observed status
  is not 0 the wrapped writer is left exactly as the handler left it; so a status \<open>S\<close>
  other than 0 that the handler set is the final status, and the response sink holds what
  the handler's writes put there and nothing from the middleware.
\<close>

theorem status_write_only_when_unset:
  "(Status (h (WrapWriter w) r) \<noteq> 0 \<longrightarrow>
      snd (loggerHandler term lib c h verbose order t1 t2 w r) = h (WrapWriter w) r)
   \<and> (Status (h (WrapWriter w) r) = 0 \<longrightarrow>
      snd (loggerHandler term lib c h verbose order t1 t2 w r)
        = WriteHeader (h (WrapWriter w) r) StatusOK)
   \<and> (\<forall>S. recorded (h (WrapWriter w) r) = Some S \<and> S \<noteq> 0 \<longrightarrow>
        sink (snd (loggerHandler term lib c h verbose order t1 t2 w r)) = sink (h (WrapWriter w) r)
        \<and> Status (snd (loggerHandler term lib c h verbose order t1 t2 w r)) = S)"
  unfolding loggerHandler_writer
  by (simp add: Status_def)

theorem status_write_only_when_unset_witness:
  "recorded (notFoundHandler (WrapWriter []) widgetsRequest) = Some 404
   \<and> Status (notFoundHandler (WrapWriter []) widgetsRequest) \<noteq> 0
   \<and> snd (widgetsRun colorTerminal withID notFoundHandler False (700 * Millisecond))
       = notFoundHandler (WrapWriter []) widgetsRequest
   \<and> sink (snd (widgetsRun colorTerminal withID notFoundHandler False (700 * Millisecond))) = [404]
   \<and> Status (silentHandler (WrapWriter []) widgetsRequest) = 0
   \<and> sink (snd (widgetsRun plainTerminal withID silentHandler True (6 * Second))) = [200]"
proof -
  have a: "recorded (notFoundHandler (WrapWriter []) widgetsRequest) = Some 404"
    by (simp add: notFoundHandler_def WrapWriter_def WriteHeader_def)
  have b: "Status (notFoundHandler (WrapWriter []) widgetsRequest) \<noteq> 0"
    by (simp add: notFoundHandler_def WrapWriter_def WriteHeader_def Status_def)
  have c: "Status (silentHandler (WrapWriter []) widgetsRequest) = 0"
    by (simp add: silentHandler_def WrapWriter_def Status_def)
  show ?thesis
    using a b c run_notfound_writer run_silent_writer
      status_write_only_when_unset [of notFoundHandler "[]" widgetsRequest colorTerminal
        exampleLib withID False widgetsOrder 0 "700 * Millisecond"]
    by (simp add: widgetsRun_def)
qed

subsection \<open>The start record\<close>

text \<open>
  C5. The start record ends with the word \<^verbatim>\<open>from\<close> and an address. The address is the
  value of the header \<^verbatim>\<open>X-Forwarded-For\<close>, as it is, when the header is present with a
  value that is not empty (the value of a header being its first value, as \<^verbatim>\<open>Header.Get\<close>
  reads it); otherwise it is the remote address of the connection.
\<close>

theorem forwarded_for_address:
  "hd (fst (loggerHandler term lib c h verbose order t1 t2 w r))
     = reqTag term (GetReqID c) @ ''Started '' @ cW term [] bMagenta (Method r @ '' '')
         @ cW term [] nBlue (Quote lib (URL r) @ '' '') @ ''from ''
         @ (case Header r ''X-Forwarded-For'' of
              None \<Rightarrow> RemoteAddr r
            | Some [] \<Rightarrow> RemoteAddr r
            | Some (v # vs) \<Rightarrow> if v \<noteq> [] then v else RemoteAddr r)"
  unfolding loggerHandler_log printEnd_line printStart_line
  by (simp add: Get_def split: option.split list.split)




subsection \<open>The header records\<close>

text \<open>
  C6. Let \<open>order\<close> be the order in which the header map is ranged over: its keys, each
  once. In verbose mode the middleware prints, between the start record and the end
  record, one record per key, in that order; the record of a key is the request-ID
  prefix, the key, a colon and a space, and all the values of the key joined by \<^verbatim>\<open>", "\<close> in
  the order the key holds them. So there are as many header records as the map has
  keys. Without verbose mode there is no header record: the start and the end record are
  the only two.
\<close>

theorem header_lines:
  assumes "distinct order" and "set order = dom (Header r)"
  shows "printHeaders term reqID r order log
           = log @ map (\<lambda>k. reqTag term reqID @ k @ '': '' @ joined '', '' (the (Header r k))) order
       \<and> butlast (tl (fst (loggerHandler term lib c h True order t1 t2 w r)))
           = map (\<lambda>k. reqTag term (GetReqID c) @ k @ '': '' @ joined '', '' (the (Header r k))) order
       \<and> length (fst (loggerHandler term lib c h True order t1 t2 w r))
           = card (dom (Header r)) + 2
       \<and> length (fst (loggerHandler term lib c h False order t1 t2 w r)) = 2"
proof -
  have f: "filter (\<lambda>k. Header r k \<noteq> None) order = order"
    using assms(2) by (auto simp: filter_id_conv)
  have n: "length order = card (dom (Header r))"
    using assms distinct_card by fastforce
  have p: "printHeaders term reqID r order log
           = log @ map (\<lambda>k. reqTag term reqID @ k @ '': '' @ joined '', '' (the (Header r k))) order"
    unfolding printHeaders_def rangeHeader_lines f by simp
  have b: "butlast (tl (fst (loggerHandler term lib c h True order t1 t2 w r)))
           = map (\<lambda>k. reqTag term (GetReqID c) @ k @ '': '' @ joined '', '' (the (Header r k))) order"
    unfolding loggerHandler_log printEnd_line printStart_line f
    by (simp add: butlast_append)
  have l1: "length (fst (loggerHandler term lib c h True order t1 t2 w r))
           = card (dom (Header r)) + 2"
    unfolding loggerHandler_log printEnd_line printStart_line f
    by (simp add: n)
  have l2: "length (fst (loggerHandler term lib c h False order t1 t2 w r)) = 2"
    unfolding loggerHandler_log printEnd_line printStart_line
    by simp
  from p b l1 l2 show ?thesis by simp
qed

theorem header_lines_witness:
  "distinct widgetsOrder \<and> set widgetsOrder = dom (Header widgetsRequest)
   \<and> butlast (tl (fst (widgetsRun plainTerminal withID silentHandler True (6 * Second))))
       = [''[abc123] Accept: text/html, text/plain, */*'', ''[abc123] X-Forwarded-For: 10.0.0.5'']
   \<and> length (fst (widgetsRun plainTerminal withID silentHandler True (6 * Second)))
       = card (dom (Header widgetsRequest)) + 2
   \<and> length (fst (widgetsRun plainTerminal withID silentHandler False (6 * Second))) = 2"
proof -
  have a: "distinct widgetsOrder"
    by (simp add: widgetsOrder_def)
  have b: "set widgetsOrder = dom (Header widgetsRequest)"
    by (auto simp: widgetsOrder_def widgetsRequest_def)
  have c: "butlast (tl (fst (widgetsRun plainTerminal withID silentHandler True (6 * Second))))
       = [''[abc123] Accept: text/html, text/plain, */*'', ''[abc123] X-Forwarded-For: 10.0.0.5'']"
    by (simp add: run_silent_verbose)
  show ?thesis
    using a b c
      header_lines [OF a b, of plainTerminal "[]" "[]" exampleLib withID silentHandler 0
        "6 * Second" "[]"]
    by (simp add: widgetsRun_def)
qed

subsection \<open>The duration in the end record\<close>

text \<open>
  C8. The end record ends with the word \<^verbatim>\<open>in\<close> and the duration \<^verbatim>\<open>t2.Sub(t1)\<close>, written in
  the colour of the one latency bucket it falls in: \<open>nGreen\<close> (fast) below 500
  milliseconds, \<open>nYellow\<close> (moderate) from 500 milliseconds to below 5 seconds, \<open>nRed\<close>
  (slow) from 5 seconds on.
\<close>

theorem duration_bucket_color:
  "\<exists>front. last (fst (loggerHandler term lib c h verbose order t1 t2 w r))
     = front @ '' in ''
         @ cW term []
             (if Sub t2 t1 < 500 * Millisecond then nGreen
              else if Sub t2 t1 < 5 * Second then nYellow else nRed)
             (durationString lib (Sub t2 t1))"
  unfolding loggerHandler_log printEnd_line
  by (simp del: append_assoc add: append_assoc [symmetric])

end
